theory Spec2Isabelle
  imports Main "HOL-Library.Sublist"
begin

section \<open>Values of the proxy: JSON data and Python exceptions\<close>

text \<open>
  The proxy \<^verbatim>\<open>anthro_to_openai_proxy.py\<close> works on whatever \<^verbatim>\<open>json.loads\<close> produced:
  Python values built from \<^verbatim>\<open>None\<close>, \<^verbatim>\<open>bool\<close>, \<^verbatim>\<open>int\<close>, \<^verbatim>\<open>float\<close>, \<^verbatim>\<open>str\<close>,
  \<^verbatim>\<open>list\<close> and \<^verbatim>\<open>dict\<close> with string keys. Nothing in the code checks the shape of
  these values, so the model keeps them untyped and every attribute access, subscript and
  iteration that Python would reject is an error branch.

  \<^item> \<open>JFloat m e\<close> stands for the finite decimal \<open>m * 10^e\<close>; floats are only passed through
    and tested for truthiness.
  \<^item> \<open>JObj kvs\<close> is a dict with items \<open>kvs\<close> in insertion order; the keys of a dict are
    distinct, and \<open>map_of kvs\<close> is its lookup.
  \<^item> \<open>JStr s\<close> holds the characters of the string; the code only passes strings on, joins
    them, compares them with constants and looks at their first element.
\<close>

datatype json =
    JNull
  | JBool bool
  | JInt int
  | JFloat int int
  | JStr string
  | JArr "json list"
  | JObj "(string \<times> json) list"

datatype py_error = AttributeError | IndexError | KeyError | TypeError

text \<open>Sequencing of two computations that may raise: the first exception wins.\<close>

definition py_bind :: "py_error + 'a \<Rightarrow> ('a \<Rightarrow> py_error + 'b) \<Rightarrow> py_error + 'b" where
  "py_bind m f = (case m of Inl e \<Rightarrow> Inl e | Inr x \<Rightarrow> f x)"

text \<open>\<^verbatim>\<open>obj.get(key, default)\<close>: only a dict has the method \<^verbatim>\<open>get\<close>.\<close>

fun dict_get :: "json \<Rightarrow> string \<Rightarrow> json \<Rightarrow> py_error + json" where
  "dict_get (JObj kvs) k d = Inr (case map_of kvs k of Some v \<Rightarrow> v | None \<Rightarrow> d)"
| "dict_get _ k d = Inl AttributeError"

text \<open>\<^verbatim>\<open>obj[0]\<close>: the first element of a list or the first character of a string,
  \<^verbatim>\<open>IndexError\<close> when there is none; a dict has no key \<open>0\<close> (JSON keys are strings);
  nothing else can be subscripted.\<close>

fun subscript0 :: "json \<Rightarrow> py_error + json" where
  "subscript0 (JArr []) = Inl IndexError"
| "subscript0 (JArr (x # xs)) = Inr x"
| "subscript0 (JStr []) = Inl IndexError"
| "subscript0 (JStr (c # cs)) = Inr (JStr [c])"
| "subscript0 (JObj kvs) = Inl KeyError"
| "subscript0 _ = Inl TypeError"

text \<open>\<^verbatim>\<open>for x in obj\<close>: the elements of a list, the characters of a string, the keys of a
  dict; \<^verbatim>\<open>TypeError\<close> for a value that is not iterable.\<close>

fun py_iter :: "json \<Rightarrow> py_error + json list" where
  "py_iter (JArr xs) = Inr xs"
| "py_iter (JStr s) = Inr (map (\<lambda>c. JStr [c]) s)"
| "py_iter (JObj kvs) = Inr (map (\<lambda>kv. JStr (fst kv)) kvs)"
| "py_iter _ = Inl TypeError"

text \<open>Truth value of \<^verbatim>\<open>if obj:\<close>.\<close>

fun truthy :: "json \<Rightarrow> bool" where
  "truthy JNull = False"
| "truthy (JBool b) = b"
| "truthy (JInt i) = (i \<noteq> 0)"
| "truthy (JFloat m e) = (m \<noteq> 0)"
| "truthy (JStr s) = (s \<noteq> [])"
| "truthy (JArr xs) = (xs \<noteq> [])"
| "truthy (JObj kvs) = (kvs \<noteq> [])"

text \<open>\<^verbatim>\<open>sep.join(texts)\<close>: every element must be a \<^verbatim>\<open>str\<close>, otherwise \<^verbatim>\<open>TypeError\<close>.\<close>

fun is_str :: "json \<Rightarrow> bool" where
  "is_str (JStr s) = True"
| "is_str _ = False"

fun str_val :: "json \<Rightarrow> string" where
  "str_val (JStr s) = s"
| "str_val _ = []"

fun join :: "string \<Rightarrow> string list \<Rightarrow> string" where
  "join sep [] = []"
| "join sep [s] = s"
| "join sep (s # t # ts) = s @ sep @ join sep (t # ts)"

definition str_join :: "string \<Rightarrow> json list \<Rightarrow> py_error + string" where
  "str_join sep texts =
     (if list_all is_str texts then Inr (join sep (map str_val texts)) else Inl TypeError)"

text \<open>\<^verbatim>\<open>str(n)\<close> for an integer, as the f-string of the status code formats it.\<close>

fun str_nat :: "nat \<Rightarrow> string" where
  "str_nat n =
     (if n < 10 then [''0123456789'' ! n]
      else str_nat (n div 10) @ [''0123456789'' ! (n mod 10)])"

definition str_int :: "int \<Rightarrow> string" where
  "str_int i = (if i < 0 then CHR ''-'' # str_nat (nat (- i)) else str_nat (nat i))"

section \<open>Configuration and helpers\<close>

text \<open>\<^verbatim>\<open>DEFAULT_MODEL_MAP\<close> (lines 22--33), entry by entry.\<close>

definition DEFAULT_MODEL_MAP :: "(string \<times> string) list" where
  "DEFAULT_MODEL_MAP =
     [(''claude-sonnet-4-5-20250514'', ''claude-sonet-4-5:latest''),
      (''claude-opus-4-5-20251101'', ''claude-opus-4-5:latest''),
      (''claude-haiku-4-5-20250514'', ''claude-haiku-4-5:latest''),
      (''claude-sonnet-4-5'', ''claude-sonet-4-5:latest''),
      (''claude-opus-4-5'', ''claude-opus-4-5:latest''),
      (''claude-haiku-4-5'', ''claude-haiku-4-5:latest''),
      (''claude-3-5-sonnet-latest'', ''claude-sonet-4-5:latest''),
      (''claude-3-5-haiku-latest'', ''claude-haiku-4-5:latest''),
      (''claude-3-opus-latest'', ''claude-opus-4-5:latest'')]"

text \<open>\<^verbatim>\<open>map_model\<close> (lines 63--64): \<^verbatim>\<open>DEFAULT_MODEL_MAP.get(anthropic_model, anthropic_model)\<close>.
  The handler passes whatever the body holds under \<^verbatim>\<open>model\<close>; a list or a dict is
  unhashable and the lookup raises \<^verbatim>\<open>TypeError\<close>, any other value that is no key of
  the table comes back unchanged.\<close>

fun map_model :: "json \<Rightarrow> py_error + json" where
  "map_model (JStr m) =
     Inr (case map_of DEFAULT_MODEL_MAP m of Some t \<Rightarrow> JStr t | None \<Rightarrow> JStr m)"
| "map_model (JArr xs) = Inl TypeError"
| "map_model (JObj kvs) = Inl TypeError"
| "map_model v = Inr v"

text \<open>\<^verbatim>\<open>extract_text_from_content\<close> (lines 66--83). \<open>texts_append\<close> is the body of the loop
  over the items (lines 75--81), \<open>collect_texts\<close> the loop itself with the list \<^verbatim>\<open>texts\<close>
  as its state. The last line, \<^verbatim>\<open>str(content)\<close>, is Python's built-in conversion of a
  number, a boolean or a dict; it is the parameter \<open>py_str\<close>.\<close>

fun texts_append :: "json list \<Rightarrow> json \<Rightarrow> json list" where
  "texts_append texts (JStr s) = texts @ [JStr s]"
| "texts_append texts (JObj kvs) =
     (if map_of kvs ''type'' = Some (JStr ''text'')
      then texts @ [case map_of kvs ''text'' of Some v \<Rightarrow> v | None \<Rightarrow> JStr []]
      else (case map_of kvs ''text'' of Some v \<Rightarrow> texts @ [v] | None \<Rightarrow> texts))"
| "texts_append texts _ = texts"

fun collect_texts :: "json list \<Rightarrow> json list \<Rightarrow> json list" where
  "collect_texts texts [] = texts"
| "collect_texts texts (item # items) = collect_texts (texts_append texts item) items"

fun extract_text_from_content :: "(json \<Rightarrow> string) \<Rightarrow> json \<Rightarrow> py_error + string" where
  "extract_text_from_content py_str JNull = Inr []"
| "extract_text_from_content py_str (JStr s) = Inr s"
| "extract_text_from_content py_str (JArr items) = str_join [CHR 0x0A] (collect_texts [] items)"
| "extract_text_from_content py_str content = Inr (py_str content)"

text \<open>\<^verbatim>\<open>anthropic_messages_to_openai\<close> (lines 85--98). \<open>convert_message\<close> is the body of the
  loop (lines 94--96), \<open>convert_messages\<close> the loop with the list \<^verbatim>\<open>out\<close> as its state.\<close>

definition convert_message :: "(json \<Rightarrow> string) \<Rightarrow> json \<Rightarrow> py_error + json" where
  "convert_message py_str m =
     py_bind (dict_get m ''role'' (JStr ''user'')) (\<lambda>role.
     py_bind (dict_get m ''content'' (JStr [])) (\<lambda>c.
     py_bind (extract_text_from_content py_str c) (\<lambda>content.
     Inr (JObj [(''role'', role), (''content'', JStr content)]))))"

fun convert_messages :: "(json \<Rightarrow> string) \<Rightarrow> json list \<Rightarrow> json list \<Rightarrow> py_error + json list" where
  "convert_messages py_str out [] = Inr out"
| "convert_messages py_str out (m # ms) =
     (case convert_message py_str m of
        Inl e \<Rightarrow> Inl e
      | Inr t \<Rightarrow> convert_messages py_str (out @ [t]) ms)"

definition anthropic_messages_to_openai ::
    "(json \<Rightarrow> string) \<Rightarrow> json \<Rightarrow> json \<Rightarrow> py_error + json list" where
  "anthropic_messages_to_openai py_str messages system =
     (let out = (if truthy system
                 then [JObj [(''role'', JStr ''system''), (''content'', system)]]
                 else [])
      in py_bind (py_iter messages) (convert_messages py_str out))"

section \<open>The endpoint \<^verbatim>\<open>/v1/messages\<close>\<close>

text \<open>
  What the handler takes from outside itself:
  \<^item> \<open>builtin_str\<close>: Python's \<^verbatim>\<open>str\<close> on a value that is no string, list or \<^verbatim>\<open>None\<close>;
  \<^item> \<open>backend_post\<close>: the body of the \<^verbatim>\<open>try\<close> block (lines 138--145) as a function of the
    payload: \<^verbatim>\<open>client.post\<close>, \<^verbatim>\<open>raise_for_status\<close> and \<^verbatim>\<open>resp.json()\<close>;
  \<^item> \<open>uuid4_hex\<close>: the 32 hexadecimal digits of \<^verbatim>\<open>uuid.uuid4().hex\<close>.

  The \<^verbatim>\<open>try\<close> block ends in one of three ways: \<^verbatim>\<open>httpx.HTTPStatusError\<close> with the status
  code and text of the response, any other \<^verbatim>\<open>Exception\<close> with its \<^verbatim>\<open>str\<close>, or the decoded
  JSON of the reply.
\<close>

datatype backend_outcome =
    HTTPStatusError int string
  | OtherException string
  | Json json

record externals =
  builtin_str :: "json \<Rightarrow> string"
  backend_post :: "json \<Rightarrow> backend_outcome"
  uuid4_hex :: string

text \<open>The handler returns a dict, or (line 110) a tuple of a dict and an integer.\<close>

datatype returned = Body json | Tuple json int

text \<open>Lines 112--130: the fields of the request with their defaults, the mapped model, the
  converted messages and the payload. The result keeps \<^verbatim>\<open>model\<close>, which line 166 uses.\<close>

definition build_payload :: "(json \<Rightarrow> string) \<Rightarrow> json \<Rightarrow> py_error + (json \<times> json)" where
  "build_payload py_str body =
     py_bind (dict_get body ''model'' (JStr ''claude-haiku-4-5'')) (\<lambda>model.
     py_bind (dict_get body ''messages'' (JArr [])) (\<lambda>messages.
     py_bind (dict_get body ''system'' JNull) (\<lambda>system.
     py_bind (dict_get body ''max_tokens'' (JInt 4096)) (\<lambda>max_tokens.
     py_bind (dict_get body ''temperature'' (JFloat 7 (- 1))) (\<lambda>temperature.
     py_bind (dict_get body ''stream'' (JBool False)) (\<lambda>stream.
     py_bind (map_model model) (\<lambda>target_model.
     py_bind (anthropic_messages_to_openai py_str messages system) (\<lambda>openai_messages.
     Inr (model,
          JObj [(''model'', target_model),
                (''messages'', JArr openai_messages),
                (''max_tokens'', max_tokens),
                (''temperature'', temperature),
                (''stream'', JBool False)])))))))))"

text \<open>Lines 157--174: the response built from the backend's reply \<^verbatim>\<open>data\<close>.\<close>

definition translate_response :: "string \<Rightarrow> json \<Rightarrow> json \<Rightarrow> py_error + json" where
  "translate_response hex model data =
     py_bind (dict_get data ''choices'' (JArr [JObj []])) (\<lambda>choices.
     py_bind (subscript0 choices) (\<lambda>choice.
     py_bind (dict_get choice ''message'' (JObj [])) (\<lambda>message.
     py_bind (dict_get message ''content'' (JStr [])) (\<lambda>text.
     py_bind (dict_get data ''usage'' (JObj [])) (\<lambda>usage_in.
     py_bind (dict_get usage_in ''prompt_tokens'' (JInt 0)) (\<lambda>input_tokens.
     py_bind (dict_get data ''usage'' (JObj [])) (\<lambda>usage_out.
     py_bind (dict_get usage_out ''completion_tokens'' (JInt 0)) (\<lambda>output_tokens.
     Inr (JObj [(''id'', JStr (''msg_'' @ take 24 hex)),
                (''type'', JStr ''message''),
                (''role'', JStr ''assistant''),
                (''model'', model),
                (''content'', JArr [JObj [(''type'', JStr ''text''), (''text'', text)]]),
                (''stop_reason'', JStr ''end_turn''),
                (''stop_sequence'', JNull),
                (''usage'', JObj [(''input_tokens'', input_tokens),
                                  (''output_tokens'', output_tokens)])])))))))))"

text \<open>\<^verbatim>\<open>handle_messages\<close> (lines 105--174). The request is the outcome of
  \<^verbatim>\<open>await request.json()\<close>: \<open>Inl e\<close> when it raised, with \<open>e\<close> the exception's text, \<open>Inr body\<close>
  otherwise. The result is the list of payloads posted to the backend, in order, and what
  the handler returned or the exception that left it.\<close>

definition handle_messages ::
    "externals \<Rightarrow> string + json \<Rightarrow> json list \<times> (py_error + returned)" where
  "handle_messages ext request =
     (case request of
        Inl e \<Rightarrow>
          ([], Inr (Tuple (JObj [(''error'',
                      JObj [(''type'', JStr ''invalid_request_error''),
                            (''message'', JStr (''Invalid JSON: '' @ e))])]) 400))
      | Inr body \<Rightarrow>
          (case build_payload (builtin_str ext) body of
             Inl err \<Rightarrow> ([], Inl err)
           | Inr (model, payload) \<Rightarrow>
               ([payload],
                (case backend_post ext payload of
                   HTTPStatusError status_code text \<Rightarrow>
                     Inr (Body (JObj [(''type'', JStr ''error''),
                       (''error'', JObj [(''type'', JStr ''api_error''),
                          (''message'', JStr (''Ollama error: '' @ str_int status_code
                                               @ '' - '' @ text))])]))
                 | OtherException e \<Rightarrow>
                     Inr (Body (JObj [(''type'', JStr ''error''),
                       (''error'', JObj [(''type'', JStr ''api_error''),
                          (''message'', JStr (''Connection error: '' @ e))])]))
                 | Json data \<Rightarrow>
                     (case translate_response (uuid4_hex ext) model data of
                        Inl err \<Rightarrow> Inl err
                      | Inr response \<Rightarrow> Inr (Body response))))))"

section \<open>Vocabulary of the specification\<close>

text \<open>
  The definitions of this section are not code of the proxy. They say, in the words of the
  specification, which inputs its data model admits and what it expects as output; the
  theorems compare the functions above with them.
\<close>

text \<open>Reading a field of a JSON object.\<close>

fun field :: "json \<Rightarrow> string \<Rightarrow> json option" where
  "field (JObj kvs) k = map_of kvs k"
| "field _ k = None"

text \<open>The text one item of a content sequence contributes, if any: a plain string itself;
  a block with \<^verbatim>\<open>type: "text"\<close> its \<^verbatim>\<open>text\<close> field, empty when absent; a block without that
  discriminator its \<^verbatim>\<open>text\<close> field when it has one; anything else nothing.\<close>

fun contributed_text :: "json \<Rightarrow> string option" where
  "contributed_text (JStr s) = Some s"
| "contributed_text (JObj kvs) =
     (if map_of kvs ''type'' = Some (JStr ''text'')
      then Some (case map_of kvs ''text'' of Some v \<Rightarrow> str_val v | None \<Rightarrow> [])
      else map_option str_val (map_of kvs ''text''))"
| "contributed_text _ = None"

text \<open>A content block: an object whose \<^verbatim>\<open>text\<close> field, when present, is a string.\<close>

fun is_block :: "json \<Rightarrow> bool" where
  "is_block (JObj kvs) = (case map_of kvs ''text'' of Some v \<Rightarrow> is_str v | None \<Rightarrow> True)"
| "is_block _ = False"

text \<open>An item of a content sequence that does not break the join: a block, or anything
  that is not an object.\<close>

fun item_ok :: "json \<Rightarrow> bool" where
  "item_ok (JObj kvs) = is_block (JObj kvs)"
| "item_ok _ = True"

fun content_ok :: "json \<Rightarrow> bool" where
  "content_ok (JArr items) = list_all item_ok items"
| "content_ok _ = True"

text \<open>The Content Normalizer of the specification (section 4.2).\<close>

fun normalize :: "(json \<Rightarrow> string) \<Rightarrow> json \<Rightarrow> string" where
  "normalize py_str JNull = []"
| "normalize py_str (JStr s) = s"
| "normalize py_str (JArr items) = join [CHR 0x0A] (List.map_filter contributed_text items)"
| "normalize py_str content = py_str content"

text \<open>A source message is an object with well-formed content; its target message has its
  role and its normalized content.\<close>

fun is_source_message :: "json \<Rightarrow> bool" where
  "is_source_message (JObj kvs) =
     content_ok (case map_of kvs ''content'' of Some c \<Rightarrow> c | None \<Rightarrow> JStr [])"
| "is_source_message _ = False"

fun target_message :: "(json \<Rightarrow> string) \<Rightarrow> json \<Rightarrow> json" where
  "target_message py_str (JObj kvs) =
     JObj [(''role'', case map_of kvs ''role'' of Some r \<Rightarrow> r | None \<Rightarrow> JStr ''user''),
           (''content'', JStr (normalize py_str
              (case map_of kvs ''content'' of Some c \<Rightarrow> c | None \<Rightarrow> JStr [])))]"
| "target_message py_str m = m"

text \<open>A source request is an object whose model, when given, is a string and whose
  messages, when given, are a sequence of source messages.\<close>

fun messages_ok :: "json \<Rightarrow> bool" where
  "messages_ok (JArr msgs) = list_all is_source_message msgs"
| "messages_ok _ = False"

fun is_source_request :: "json \<Rightarrow> bool" where
  "is_source_request (JObj kvs) =
     (is_str (case map_of kvs ''model'' of Some m \<Rightarrow> m | None \<Rightarrow> JStr ''claude-haiku-4-5'') \<and>
      messages_ok (case map_of kvs ''messages'' of Some ms \<Rightarrow> ms | None \<Rightarrow> JArr []))"
| "is_source_request _ = False"

section \<open>Basic facts\<close>

lemma py_bind_simps [simp]:
  "py_bind (Inl e) f = Inl e" "py_bind (Inr x) f = f x"
  by (simp_all add: py_bind_def)

lemma is_str_conv: "is_str v \<longleftrightarrow> v = JStr (str_val v)"
  by (cases v) simp_all

lemma join_snoc: "join sep (ts @ [t]) = (if ts = [] then t else join sep ts @ sep @ t)"
  by (induction sep ts rule: join.induct) simp_all

lemma str_join_strs: "str_join sep (map JStr ss) = Inr (join sep ss)"
proof -
  have "list_all is_str (map JStr ss)" by (induction ss) simp_all
  moreover have "map str_val (map JStr ss) = ss" by (induction ss) simp_all
  ultimately show ?thesis by (simp add: str_join_def)
qed

section \<open>Model Resolver\<close>

lemma DEFAULT_MODEL_MAP_distinct: "distinct (map fst DEFAULT_MODEL_MAP)"
  unfolding DEFAULT_MODEL_MAP_def by code_simp

text \<open>
  Claim C5. Every key of the table resolves to the value configured for it, a model
  identifier that is no key resolves to itself, and the resolver returns a string for every
  model identifier: it never raises.
\<close>

theorem map_model_resolves:
  "(\<forall>(m, t) \<in> set DEFAULT_MODEL_MAP. map_model (JStr m) = Inr (JStr t)) \<and>
   (m \<notin> fst ` set DEFAULT_MODEL_MAP \<longrightarrow> map_model (JStr m) = Inr (JStr m)) \<and>
   (\<exists>t. map_model (JStr m) = Inr (JStr t))"
proof (intro conjI)
  show "\<forall>(m, t) \<in> set DEFAULT_MODEL_MAP. map_model (JStr m) = Inr (JStr t)"
  proof (intro ballI, clarify)
    fix k v
    assume "(k, v) \<in> set DEFAULT_MODEL_MAP"
    with DEFAULT_MODEL_MAP_distinct have "map_of DEFAULT_MODEL_MAP k = Some v"
      by simp
    then show "map_model (JStr k) = Inr (JStr v)"
      by simp
  qed
  show "m \<notin> fst ` set DEFAULT_MODEL_MAP \<longrightarrow> map_model (JStr m) = Inr (JStr m)"
  proof
    assume "m \<notin> fst ` set DEFAULT_MODEL_MAP"
    then have "map_of DEFAULT_MODEL_MAP m = None"
      by (simp add: map_of_eq_None_iff)
    then show "map_model (JStr m) = Inr (JStr m)"
      by simp
  qed
  show "\<exists>t. map_model (JStr m) = Inr (JStr t)"
    by (cases "map_of DEFAULT_MODEL_MAP m") simp_all
qed

theorem map_model_resolves_witness:
  "(''claude-3-opus-latest'', ''claude-opus-4-5:latest'') \<in> set DEFAULT_MODEL_MAP \<and>
   map_model (JStr ''claude-3-opus-latest'') = Inr (JStr ''claude-opus-4-5:latest'') \<and>
   ''llama3'' \<notin> fst ` set DEFAULT_MODEL_MAP \<and>
   map_model (JStr ''llama3'') = Inr (JStr ''llama3'')"
proof -
  have a: "(''claude-3-opus-latest'', ''claude-opus-4-5:latest'') \<in> set DEFAULT_MODEL_MAP"
    by (simp add: DEFAULT_MODEL_MAP_def)
  have b: "''llama3'' \<notin> fst ` set DEFAULT_MODEL_MAP"
    by (simp add: DEFAULT_MODEL_MAP_def)
  from map_model_resolves [of "''llama3''"] a b show ?thesis
    by blast
qed

section \<open>Content Normalizer\<close>

lemma texts_append_acc: "texts_append texts item = texts @ texts_append [] item"
  by (cases item) (simp_all split: option.splits)

lemma collect_texts_acc: "collect_texts texts items = texts @ collect_texts [] items"
proof (induction items arbitrary: texts)
  case Nil
  show ?case by simp
next
  case (Cons item items)
  have "collect_texts texts (item # items) = collect_texts (texts_append texts item) items"
    by simp
  also have "\<dots> = texts_append texts item @ collect_texts [] items"
    by (rule Cons.IH)
  also have "\<dots> = texts @ texts_append [] item @ collect_texts [] items"
    by (subst texts_append_acc) simp
  also have "texts_append [] item @ collect_texts [] items = collect_texts [] (item # items)"
    using Cons.IH [of "texts_append [] item"] by simp
  finally show ?case .
qed

lemma collect_texts_Cons:
  "collect_texts [] (item # items) = texts_append [] item @ collect_texts [] items"
  using collect_texts_acc [of "texts_append [] item"] by simp

lemma collect_texts_append:
  "collect_texts [] (xs @ ys) = collect_texts [] xs @ collect_texts [] ys"
  by (induction xs) (simp_all add: collect_texts_Cons del: collect_texts.simps(2))

lemma texts_append_ok:
  "item_ok item \<Longrightarrow>
   texts_append [] item = (case contributed_text item of Some t \<Rightarrow> [JStr t] | None \<Rightarrow> [])"
  by (cases item) (auto split: option.splits simp: is_str_conv)

lemma collect_texts_ok:
  "list_all item_ok items \<Longrightarrow>
   collect_texts [] items = map JStr (List.map_filter contributed_text items)"
proof (induction items)
  case Nil
  show ?case by (simp add: List.map_filter_simps)
next
  case (Cons item items)
  then have ok: "item_ok item"
    and IH: "collect_texts [] items = map JStr (List.map_filter contributed_text items)"
    by simp_all
  show ?case
    using texts_append_ok [OF ok] IH
    by (simp add: collect_texts_Cons List.map_filter_simps del: collect_texts.simps(2)
          split: option.splits)
qed

lemma extract_ok:
  "content_ok c \<Longrightarrow> extract_text_from_content py_str c = Inr (normalize py_str c)"
  by (cases c) (simp_all add: collect_texts_ok str_join_strs)

lemma is_block_item_ok: "is_block b \<Longrightarrow> item_ok b"
  by (cases b) simp_all

text \<open>
  Claim C3. For a content value that is a sequence of blocks, the normalizer returns the
  texts the blocks contribute, in their order, joined by one newline between neighbours and
  none after the last: a block of type \<^verbatim>\<open>text\<close> contributes its \<^verbatim>\<open>text\<close> field (the empty
  string when absent), a block without that discriminator its \<^verbatim>\<open>text\<close> field when it has
  one, every other block nothing.
\<close>

theorem normalize_blocks:
  assumes "list_all is_block blocks"
  shows "extract_text_from_content py_str (JArr blocks) =
           Inr (join [CHR 0x0A] (List.map_filter contributed_text blocks))"
proof -
  from assms have "list_all item_ok blocks"
    by (induction blocks) (simp_all add: is_block_item_ok del: item_ok.simps)
  then have "content_ok (JArr blocks)"
    by simp
  then show ?thesis
    using extract_ok [of "JArr blocks" py_str] by simp
qed

theorem normalize_blocks_witness:
  "list_all is_block
     [JObj [(''type'', JStr ''text''), (''text'', JStr ''b'')],
      JObj [(''type'', JStr ''image''), (''source'', JStr ''x'')],
      JObj [(''text'', JStr ''c'')],
      JObj [(''type'', JStr ''text'')],
      JObj [(''type'', JStr ''text''), (''text'', JStr ''d'')]] \<and>
   extract_text_from_content (\<lambda>v. [])
     (JArr [JObj [(''type'', JStr ''text''), (''text'', JStr ''b'')],
            JObj [(''type'', JStr ''image''), (''source'', JStr ''x'')],
            JObj [(''text'', JStr ''c'')],
            JObj [(''type'', JStr ''text'')],
            JObj [(''type'', JStr ''text''), (''text'', JStr ''d'')]]) =
     Inr (''b'' @ [CHR 0x0A] @ ''c'' @ [CHR 0x0A] @ [CHR 0x0A] @ ''d'')"
  using normalize_blocks [of
     "[JObj [(''type'', JStr ''text''), (''text'', JStr ''b'')],
       JObj [(''type'', JStr ''image''), (''source'', JStr ''x'')],
       JObj [(''text'', JStr ''c'')],
       JObj [(''type'', JStr ''text'')],
       JObj [(''type'', JStr ''text''), (''text'', JStr ''d'')]]" "\<lambda>v. []"]
  by (simp add: List.map_filter_simps)

text \<open>
  Claim C9. A plain string among the items of a content sequence is not dropped: the list
  that is joined by newlines holds the texts of the items before it, then the string
  itself, then the texts of the items after it; a sequence of plain strings alone is
  flattened to these strings joined by newlines.
\<close>

theorem string_items_kept:
  "extract_text_from_content py_str (JArr (pre @ JStr s # post)) =
     str_join [CHR 0x0A] (collect_texts [] pre @ JStr s # collect_texts [] post) \<and>
   extract_text_from_content py_str (JArr (map JStr ss)) = Inr (join [CHR 0x0A] ss)"
proof
  show "extract_text_from_content py_str (JArr (pre @ JStr s # post)) =
     str_join [CHR 0x0A] (collect_texts [] pre @ JStr s # collect_texts [] post)"
    by (simp add: collect_texts_append collect_texts_Cons del: collect_texts.simps(2))
  have "list_all item_ok (map JStr ss)"
    by (induction ss) simp_all
  then have "collect_texts [] (map JStr ss) = map JStr (List.map_filter contributed_text (map JStr ss))"
    by (rule collect_texts_ok)
  moreover have "List.map_filter contributed_text (map JStr ss) = ss"
    by (induction ss) (simp_all add: List.map_filter_simps)
  ultimately show "extract_text_from_content py_str (JArr (map JStr ss)) = Inr (join [CHR 0x0A] ss)"
    by (simp add: str_join_strs)
qed

section \<open>Request Translator\<close>

lemma convert_message_ok:
  "is_source_message m \<Longrightarrow> convert_message py_str m = Inr (target_message py_str m)"
  by (cases m) (simp_all add: convert_message_def extract_ok)

lemma convert_messages_ok:
  "list_all is_source_message ms \<Longrightarrow>
   convert_messages py_str out ms = Inr (out @ map (target_message py_str) ms)"
  by (induction ms arbitrary: out) (simp_all add: convert_message_ok)

section \<open>The handler\<close>

lemma messages_to_openai_ok:
  "list_all is_source_message msgs \<Longrightarrow>
   anthropic_messages_to_openai py_str (JArr msgs) system =
     Inr ((if truthy system then [JObj [(''role'', JStr ''system''), (''content'', system)]] else [])
          @ map (target_message py_str) msgs)"
  by (simp add: anthropic_messages_to_openai_def convert_messages_ok)

lemma build_payload_shape:
  assumes "build_payload py_str body = Inr (model, payload)"
  shows "\<exists>target oms mt temp.
           dict_get body ''model'' (JStr ''claude-haiku-4-5'') = Inr model \<and>
           map_model model = Inr target \<and>
           payload = JObj [(''model'', target), (''messages'', JArr oms), (''max_tokens'', mt),
                           (''temperature'', temp), (''stream'', JBool False)]"
proof (cases body)
  case (JObj kvs)
  with assms show ?thesis
    by (auto simp: build_payload_def py_bind_def split: sum.splits)
qed (use assms in \<open>simp_all add: build_payload_def\<close>)

lemma build_payload_ok:
  assumes "is_source_request body"
  shows "\<exists>model payload. build_payload py_str body = Inr (model, payload)"
proof (cases body)
  case (JObj kvs)
  define model where "model = (case map_of kvs ''model'' of Some m \<Rightarrow> m | None \<Rightarrow> JStr ''claude-haiku-4-5'')"
  define messages where "messages = (case map_of kvs ''messages'' of Some ms \<Rightarrow> ms | None \<Rightarrow> JArr [])"
  from assms JObj have m: "is_str model" and ms: "messages_ok messages"
    by (simp_all add: model_def messages_def)
  from m obtain t where t: "map_model model = Inr t"
    by (cases model) simp_all
  from ms obtain msgs where msgs: "messages = JArr msgs" "list_all is_source_message msgs"
    by (cases messages) simp_all
  show ?thesis
    using t msgs unfolding JObj
    by (simp add: build_payload_def model_def [symmetric] messages_def [symmetric]
          messages_to_openai_ok)
qed (use assms in simp_all)

lemma handle_messages_sent:
  "fst (handle_messages ext (Inr body)) =
     (case build_payload (builtin_str ext) body of Inl err \<Rightarrow> [] | Inr (model, payload) \<Rightarrow> [payload])"
  by (simp add: handle_messages_def split: sum.splits prod.splits)

lemma handle_messages_built:
  "build_payload (builtin_str ext) body = Inr (model, payload) \<Longrightarrow>
   handle_messages ext (Inr body) =
     ([payload],
      (case backend_post ext payload of
         HTTPStatusError status_code text \<Rightarrow>
           Inr (Body (JObj [(''type'', JStr ''error''),
             (''error'', JObj [(''type'', JStr ''api_error''),
                (''message'', JStr (''Ollama error: '' @ str_int status_code
                                     @ '' - '' @ text))])]))
       | OtherException e \<Rightarrow>
           Inr (Body (JObj [(''type'', JStr ''error''),
             (''error'', JObj [(''type'', JStr ''api_error''),
                (''message'', JStr (''Connection error: '' @ e))])]))
       | Json data \<Rightarrow>
           (case translate_response (uuid4_hex ext) model data of
              Inl err \<Rightarrow> Inl err
            | Inr response \<Rightarrow> Inr (Body response))))"
  by (simp add: handle_messages_def)

lemma build_payload_messages:
  assumes "is_source_request (JObj kvs)"
    and "(case map_of kvs ''messages'' of Some ms \<Rightarrow> ms | None \<Rightarrow> JArr []) = JArr msgs"
    and "(case map_of kvs ''system'' of Some s \<Rightarrow> s | None \<Rightarrow> JNull) = system"
  shows "\<exists>model target.
           build_payload py_str (JObj kvs) =
             Inr (model,
                  JObj [(''model'', target),
                        (''messages'',
                         JArr ((if truthy system
                                then [JObj [(''role'', JStr ''system''), (''content'', system)]]
                                else [])
                               @ map (target_message py_str) msgs)),
                        (''max_tokens'',
                         case map_of kvs ''max_tokens'' of Some v \<Rightarrow> v | None \<Rightarrow> JInt 4096),
                        (''temperature'',
                         case map_of kvs ''temperature'' of Some v \<Rightarrow> v | None \<Rightarrow> JFloat 7 (- 1)),
                        (''stream'', JBool False)])"
proof -
  define model where
    "model = (case map_of kvs ''model'' of Some m \<Rightarrow> m | None \<Rightarrow> JStr ''claude-haiku-4-5'')"
  from assms(1) have m: "is_str model"
    and ms: "messages_ok (case map_of kvs ''messages'' of Some ms \<Rightarrow> ms | None \<Rightarrow> JArr [])"
    by (simp_all add: model_def)
  from m obtain t where t: "map_model model = Inr t"
    by (cases model) simp_all
  from ms have ok: "list_all is_source_message msgs"
    unfolding assms(2) by simp
  show ?thesis
    using t assms(2,3)
    by (simp add: build_payload_def model_def [symmetric] messages_to_openai_ok [OF ok])
qed

text \<open>
  Claim C4. For every source request whose system prompt is absent or a string, the
  message list of the payload the handler posts is the system message, there if and only
  if the prompt is present and not empty, followed by the target message of every source
  message of the request in the original order: its role and its normalized content. The
  converter \<^verbatim>\<open>anthropic_messages_to_openai\<close> returns that list for the messages and the
  system prompt of the request.
\<close>

theorem request_messages_translated:
  assumes "is_source_request (JObj kvs)"
    and "(case map_of kvs ''messages'' of Some ms \<Rightarrow> ms | None \<Rightarrow> JArr []) = JArr msgs"
    and "(case map_of kvs ''system'' of Some s \<Rightarrow> s | None \<Rightarrow> JNull) = system"
    and "system = JNull \<or> is_str system"
  shows "anthropic_messages_to_openai py_str (JArr msgs) system =
           Inr ((if system = JNull \<or> system = JStr [] then []
                 else [JObj [(''role'', JStr ''system''), (''content'', system)]])
                @ map (target_message py_str) msgs) \<and>
         (\<exists>payload.
            fst (handle_messages ext (Inr (JObj kvs))) = [payload] \<and>
            field payload ''messages'' =
              Some (JArr ((if system = JNull \<or> system = JStr [] then []
                           else [JObj [(''role'', JStr ''system''), (''content'', system)]])
                          @ map (target_message (builtin_str ext)) msgs)))"
proof
  from assms(4) have sys: "truthy system \<longleftrightarrow> \<not> (system = JNull \<or> system = JStr [])"
    by (cases system) simp_all
  from assms(1,2) have ok: "list_all is_source_message msgs"
    by simp
  show "anthropic_messages_to_openai py_str (JArr msgs) system =
           Inr ((if system = JNull \<or> system = JStr [] then []
                 else [JObj [(''role'', JStr ''system''), (''content'', system)]])
                @ map (target_message py_str) msgs)"
    using sys ok by (simp add: anthropic_messages_to_openai_def convert_messages_ok)
  from build_payload_messages [OF assms(1,2,3), of "builtin_str ext"]
  obtain model payload where
    bp: "build_payload (builtin_str ext) (JObj kvs) = Inr (model, payload)" and
    pm: "field payload ''messages'' =
      Some (JArr ((if truthy system
                   then [JObj [(''role'', JStr ''system''), (''content'', system)]]
                   else [])
                  @ map (target_message (builtin_str ext)) msgs))"
    by auto
  have "fst (handle_messages ext (Inr (JObj kvs))) = [payload]"
    by (simp add: handle_messages_sent bp)
  with pm sys show "\<exists>payload.
            fst (handle_messages ext (Inr (JObj kvs))) = [payload] \<and>
            field payload ''messages'' =
              Some (JArr ((if system = JNull \<or> system = JStr [] then []
                           else [JObj [(''role'', JStr ''system''), (''content'', system)]])
                          @ map (target_message (builtin_str ext)) msgs))"
    by auto
qed

theorem request_messages_translated_witness:
  "is_source_request
     (JObj [(''system'', JStr ''be terse''),
            (''messages'', JArr [JObj [(''role'', JStr ''user''), (''content'', JStr ''hi'')]])]) \<and>
   (JStr ''be terse'' = JNull \<or> is_str (JStr ''be terse'')) \<and>
   anthropic_messages_to_openai (\<lambda>v. [])
     (JArr [JObj [(''role'', JStr ''user''), (''content'', JStr ''hi'')]]) (JStr ''be terse'') =
     Inr [JObj [(''role'', JStr ''system''), (''content'', JStr ''be terse'')],
          JObj [(''role'', JStr ''user''), (''content'', JStr ''hi'')]] \<and>
   fst (handle_messages
          \<lparr>builtin_str = (\<lambda>v. []), backend_post = (\<lambda>p. OtherException ''timed out''),
           uuid4_hex = []\<rparr>
          (Inr (JObj [(''system'', JStr ''be terse''),
                      (''messages'',
                       JArr [JObj [(''role'', JStr ''user''), (''content'', JStr ''hi'')]])]))) =
     [JObj [(''model'', JStr ''claude-haiku-4-5:latest''),
            (''messages'',
             JArr [JObj [(''role'', JStr ''system''), (''content'', JStr ''be terse'')],
                   JObj [(''role'', JStr ''user''), (''content'', JStr ''hi'')]]),
            (''max_tokens'', JInt 4096),
            (''temperature'', JFloat 7 (- 1)),
            (''stream'', JBool False)]]"
  using request_messages_translated
    [of "[(''system'', JStr ''be terse''),
          (''messages'', JArr [JObj [(''role'', JStr ''user''), (''content'', JStr ''hi'')]])]"
        "[JObj [(''role'', JStr ''user''), (''content'', JStr ''hi'')]]"
        "JStr ''be terse''" "\<lambda>v. []"
        "\<lparr>builtin_str = (\<lambda>v. []), backend_post = (\<lambda>p. OtherException ''timed out''),
          uuid4_hex = []\<rparr>"]
  by (simp add: handle_messages_def build_payload_def anthropic_messages_to_openai_def
        convert_message_def DEFAULT_MODEL_MAP_def)

lemma translate_response_fields:
  assumes "translate_response hex model data = Inr r"
  shows "field r ''model'' = Some model \<and> field r ''type'' = Some (JStr ''message'')"
  using assms
  by (auto simp: translate_response_def py_bind_def split: sum.splits)

text \<open>
  Claim C6. For every source request the one payload posted to the backend carries the
  resolved model identifier, and a response of type \<^verbatim>\<open>message\<close>, whatever the backend
  replied, carries the model identifier of the request itself; the identifier
  \<^verbatim>\<open>claude-haiku-4-5-20250514\<close> is resolved to \<^verbatim>\<open>claude-haiku-4-5:latest\<close>.
\<close>

theorem model_resolved_and_echoed:
  assumes "is_source_request body"
  shows "\<exists>model target payload.
           dict_get body ''model'' (JStr ''claude-haiku-4-5'') = Inr model \<and>
           map_model model = Inr target \<and>
           fst (handle_messages ext (Inr body)) = [payload] \<and>
           field payload ''model'' = Some target \<and>
           (\<forall>r. snd (handle_messages ext (Inr body)) = Inr (Body r) \<and>
                field r ''type'' = Some (JStr ''message'') \<longrightarrow>
                field r ''model'' = Some model) \<and>
           (model = JStr ''claude-haiku-4-5-20250514'' \<longrightarrow>
              target = JStr ''claude-haiku-4-5:latest'')"
proof -
  from build_payload_ok [OF assms] obtain model payload
    where bp: "build_payload (builtin_str ext) body = Inr (model, payload)"
    by blast
  from build_payload_shape [OF bp] obtain target where
    m: "dict_get body ''model'' (JStr ''claude-haiku-4-5'') = Inr model" and
    t: "map_model model = Inr target" and
    p: "field payload ''model'' = Some target"
    by auto
  have sent: "fst (handle_messages ext (Inr body)) = [payload]"
    by (simp add: handle_messages_built [OF bp])
  have echo: "field r ''model'' = Some model"
    if "snd (handle_messages ext (Inr body)) = Inr (Body r)"
      and "field r ''type'' = Some (JStr ''message'')" for r
  proof (cases "backend_post ext payload")
    case (HTTPStatusError code reply)
    with that show ?thesis
      by (auto simp: handle_messages_built [OF bp])
  next
    case (OtherException e)
    with that show ?thesis
      by (auto simp: handle_messages_built [OF bp])
  next
    case (Json data)
    with that(1) have "translate_response (uuid4_hex ext) model data = Inr r"
      by (simp add: handle_messages_built [OF bp] split: sum.splits)
    then show ?thesis
      by (simp add: translate_response_fields)
  qed
  have haiku: "target = JStr ''claude-haiku-4-5:latest''"
    if "model = JStr ''claude-haiku-4-5-20250514''"
    using t unfolding that by (simp add: DEFAULT_MODEL_MAP_def)
  from m t sent p echo haiku show ?thesis
    by blast
qed


theorem model_resolved_and_echoed_witness:
  "is_source_request
     (JObj [(''model'', JStr ''claude-haiku-4-5-20250514''),
            (''messages'', JArr [JObj [(''role'', JStr ''user''), (''content'', JStr ''hi'')]])]) \<and>
   handle_messages
     \<lparr>builtin_str = (\<lambda>v. []),
      backend_post = (\<lambda>p. Json (JObj [(''choices'', JArr [JObj [(''message'', JObj [(''content'', JStr ''yo'')])]])])),
      uuid4_hex = ''0123456789abcdef0123456789abcdef''\<rparr>
     (Inr (JObj [(''model'', JStr ''claude-haiku-4-5-20250514''),
                 (''messages'', JArr [JObj [(''role'', JStr ''user''), (''content'', JStr ''hi'')]])])) =
     ([JObj [(''model'', JStr ''claude-haiku-4-5:latest''),
             (''messages'', JArr [JObj [(''role'', JStr ''user''), (''content'', JStr ''hi'')]]),
             (''max_tokens'', JInt 4096),
             (''temperature'', JFloat 7 (- 1)),
             (''stream'', JBool False)]],
      Inr (Body (JObj [(''id'', JStr ''msg_0123456789abcdef01234567''),
                       (''type'', JStr ''message''),
                       (''role'', JStr ''assistant''),
                       (''model'', JStr ''claude-haiku-4-5-20250514''),
                       (''content'', JArr [JObj [(''type'', JStr ''text''), (''text'', JStr ''yo'')]]),
                       (''stop_reason'', JStr ''end_turn''),
                       (''stop_sequence'', JNull),
                       (''usage'', JObj [(''input_tokens'', JInt 0), (''output_tokens'', JInt 0)])])))"
  using model_resolved_and_echoed [of
     "JObj [(''model'', JStr ''claude-haiku-4-5-20250514''),
            (''messages'', JArr [JObj [(''role'', JStr ''user''), (''content'', JStr ''hi'')]])]"
     "\<lparr>builtin_str = (\<lambda>v. []),
      backend_post = (\<lambda>p. Json (JObj [(''choices'', JArr [JObj [(''message'', JObj [(''content'', JStr ''yo'')])]])])),
      uuid4_hex = ''0123456789abcdef0123456789abcdef''\<rparr>"]
  by (simp add: handle_messages_def build_payload_def anthropic_messages_to_openai_def
        convert_message_def translate_response_def DEFAULT_MODEL_MAP_def)

text \<open>
  Claim C8. Every payload the handler posts has \<^verbatim>\<open>stream\<close> equal to false; a source request
  leads to exactly one payload; and a \<^verbatim>\<open>stream\<close> field put in front of a request, whatever
  its value, changes nothing in what is posted.
\<close>

theorem stream_forced_false:
  "(\<forall>p \<in> set (fst (handle_messages ext request)). field p ''stream'' = Some (JBool False)) \<and>
   (is_source_request body \<longrightarrow> (\<exists>payload. fst (handle_messages ext (Inr body)) = [payload])) \<and>
   fst (handle_messages ext (Inr (JObj ((''stream'', v) # kvs)))) =
     fst (handle_messages ext (Inr (JObj kvs)))"
proof (intro conjI)
  show "\<forall>p \<in> set (fst (handle_messages ext request)). field p ''stream'' = Some (JBool False)"
  proof (cases request)
    case (Inl e)
    then show ?thesis by (simp add: handle_messages_def)
  next
    case (Inr b)
    show ?thesis
    proof (cases "build_payload (builtin_str ext) b")
      case (Inl err)
      then show ?thesis unfolding Inr by (simp add: handle_messages_sent)
    next
      case bp: (Inr mp)
      obtain model payload where mp: "mp = (model, payload)"
        by (cases mp)
      from build_payload_shape [OF bp [unfolded mp]]
      have "field payload ''stream'' = Some (JBool False)"
        by auto
      then show ?thesis
        unfolding Inr by (simp add: handle_messages_sent bp mp)
    qed
  qed
  show "is_source_request body \<longrightarrow> (\<exists>payload. fst (handle_messages ext (Inr body)) = [payload])"
  proof
    assume "is_source_request body"
    from build_payload_ok [OF this] obtain model payload
      where "build_payload (builtin_str ext) body = Inr (model, payload)"
      by blast
    then show "\<exists>payload. fst (handle_messages ext (Inr body)) = [payload]"
      by (simp add: handle_messages_sent)
  qed
  have "build_payload py_str (JObj ((''stream'', v) # kvs)) = build_payload py_str (JObj kvs)"
    for py_str
    by (simp add: build_payload_def)
  then show "fst (handle_messages ext (Inr (JObj ((''stream'', v) # kvs)))) =
      fst (handle_messages ext (Inr (JObj kvs)))"
    by (simp add: handle_messages_sent)
qed

theorem stream_forced_false_witness:
  "is_source_request (JObj [(''stream'', JBool True), (''messages'', JArr [])]) \<and>
   fst (handle_messages
          \<lparr>builtin_str = (\<lambda>v. []), backend_post = (\<lambda>p. OtherException ''timed out''),
           uuid4_hex = []\<rparr>
          (Inr (JObj [(''stream'', JBool True), (''messages'', JArr [])]))) =
     [JObj [(''model'', JStr ''claude-haiku-4-5:latest''),
            (''messages'', JArr []),
            (''max_tokens'', JInt 4096),
            (''temperature'', JFloat 7 (- 1)),
            (''stream'', JBool False)]] \<and>
   field (JObj [(''model'', JStr ''claude-haiku-4-5:latest''),
                (''messages'', JArr []),
                (''max_tokens'', JInt 4096),
                (''temperature'', JFloat 7 (- 1)),
                (''stream'', JBool False)]) ''stream'' = Some (JBool False)"
  using stream_forced_false [of
     "\<lparr>builtin_str = (\<lambda>v. []), backend_post = (\<lambda>p. OtherException ''timed out''),
       uuid4_hex = []\<rparr>"
     "Inr (JObj [(''stream'', JBool True), (''messages'', JArr [])])"
     "JObj [(''stream'', JBool True), (''messages'', JArr [])]"
     "JBool True" "[(''messages'', JArr [])]"]
  by (simp add: handle_messages_def build_payload_def anthropic_messages_to_openai_def
        DEFAULT_MODEL_MAP_def)

text \<open>
  Claim C7. When the handler has posted a payload and the backend answers with an HTTP
  status error, the handler returns an error envelope of type \<^verbatim>\<open>api_error\<close> whose message
  holds the status code and the text of the backend's response; when the call fails with any
  other exception, it returns an error envelope of type \<^verbatim>\<open>api_error\<close> whose message holds
  the description of the exception. In both cases the payload was posted once and the
  handler returns normally.
\<close>

theorem backend_failures_mapped:
  assumes "fst (handle_messages ext (Inr body)) = [payload]"
  shows "(backend_post ext payload = HTTPStatusError status_code reply \<longrightarrow>
            handle_messages ext (Inr body) =
              ([payload],
               Inr (Body (JObj [(''type'', JStr ''error''),
                    (''error'', JObj [(''type'', JStr ''api_error''),
                       (''message'',
                        JStr (''Ollama error: '' @ str_int status_code @ '' - '' @ reply))])]))) \<and>
            sublist (str_int status_code)
              (''Ollama error: '' @ str_int status_code @ '' - '' @ reply) \<and>
            sublist reply (''Ollama error: '' @ str_int status_code @ '' - '' @ reply)) \<and>
         (backend_post ext payload = OtherException e \<longrightarrow>
            handle_messages ext (Inr body) =
              ([payload],
               Inr (Body (JObj [(''type'', JStr ''error''),
                    (''error'', JObj [(''type'', JStr ''api_error''),
                       (''message'', JStr (''Connection error: '' @ e))])]))) \<and>
            sublist e (''Connection error: '' @ e))"
proof -
  from assms obtain model where bp: "build_payload (builtin_str ext) body = Inr (model, payload)"
    by (auto simp: handle_messages_sent split: sum.splits)
  have status: "handle_messages ext (Inr body) =
      ([payload],
       Inr (Body (JObj [(''type'', JStr ''error''),
            (''error'', JObj [(''type'', JStr ''api_error''),
               (''message'', JStr (''Ollama error: '' @ str_int status_code @ '' - '' @ reply))])])))"
    if "backend_post ext payload = HTTPStatusError status_code reply"
    using that by (simp add: handle_messages_built [OF bp])
  have other: "handle_messages ext (Inr body) =
      ([payload],
       Inr (Body (JObj [(''type'', JStr ''error''),
            (''error'', JObj [(''type'', JStr ''api_error''),
               (''message'', JStr (''Connection error: '' @ e))])])))"
    if "backend_post ext payload = OtherException e"
    using that by (simp add: handle_messages_built [OF bp])
  have s1: "sublist (str_int status_code)
      (''Ollama error: '' @ str_int status_code @ '' - '' @ reply)"
    by (rule sublist_appendI)
  have "sublist reply ((''Ollama error: '' @ str_int status_code @ '' - '') @ reply @ [])"
    by (rule sublist_appendI)
  then have s2: "sublist reply (''Ollama error: '' @ str_int status_code @ '' - '' @ reply)"
    by simp
  have "sublist e (''Connection error: '' @ e @ [])"
    by (rule sublist_appendI)
  then have s3: "sublist e (''Connection error: '' @ e)"
    by simp
  from status other s1 s2 s3 show ?thesis
    by blast
qed

theorem backend_failures_mapped_witness:
  "handle_messages
     \<lparr>builtin_str = (\<lambda>v. []), backend_post = (\<lambda>p. HTTPStatusError 500 ''oops''),
      uuid4_hex = []\<rparr>
     (Inr (JObj [])) =
     ([JObj [(''model'', JStr ''claude-haiku-4-5:latest''),
             (''messages'', JArr []),
             (''max_tokens'', JInt 4096),
             (''temperature'', JFloat 7 (- 1)),
             (''stream'', JBool False)]],
      Inr (Body (JObj [(''type'', JStr ''error''),
           (''error'', JObj [(''type'', JStr ''api_error''),
              (''message'', JStr ''Ollama error: 500 - oops'')])]))) \<and>
   handle_messages
     \<lparr>builtin_str = (\<lambda>v. []), backend_post = (\<lambda>p. OtherException ''timed out''),
      uuid4_hex = []\<rparr>
     (Inr (JObj [])) =
     ([JObj [(''model'', JStr ''claude-haiku-4-5:latest''),
             (''messages'', JArr []),
             (''max_tokens'', JInt 4096),
             (''temperature'', JFloat 7 (- 1)),
             (''stream'', JBool False)]],
      Inr (Body (JObj [(''type'', JStr ''error''),
           (''error'', JObj [(''type'', JStr ''api_error''),
              (''message'', JStr ''Connection error: timed out'')])])))"
proof -
  have sent: "fst (handle_messages
          \<lparr>builtin_str = (\<lambda>v. []), backend_post = post, uuid4_hex = []\<rparr>
          (Inr (JObj []))) =
     [JObj [(''model'', JStr ''claude-haiku-4-5:latest''),
            (''messages'', JArr []),
            (''max_tokens'', JInt 4096),
            (''temperature'', JFloat 7 (- 1)),
            (''stream'', JBool False)]]" for post
    by (simp add: handle_messages_def build_payload_def anthropic_messages_to_openai_def
          DEFAULT_MODEL_MAP_def)
  have code: "str_int 500 = ''500''"
    by (simp add: str_int_def)
  from backend_failures_mapped [OF sent, of "\<lambda>p. HTTPStatusError 500 ''oops''" 500 "''oops''"]
    backend_failures_mapped [OF sent, of "\<lambda>p. OtherException ''timed out''" _ _ "''timed out''"]
    code
  show ?thesis
    by simp
qed

text \<open>
  Claim C10. A request without a \<^verbatim>\<open>model\<close> field is handled exactly as the same request
  with model \<^verbatim>\<open>claude-haiku-4-5\<close>; a message without a \<^verbatim>\<open>role\<close> field is converted exactly
  as the same message with role \<^verbatim>\<open>user\<close>; a message without a \<^verbatim>\<open>content\<close> field is converted
  exactly as the same message with the empty string as content, and a message with neither
  becomes the target message with role \<^verbatim>\<open>user\<close> and empty content.
\<close>

theorem absent_fields_default:
  "(map_of kvs ''model'' = None \<longrightarrow>
      handle_messages ext (Inr (JObj kvs)) =
      handle_messages ext (Inr (JObj ((''model'', JStr ''claude-haiku-4-5'') # kvs)))) \<and>
   (map_of mkvs ''role'' = None \<longrightarrow>
      convert_message py_str (JObj mkvs) =
      convert_message py_str (JObj ((''role'', JStr ''user'') # mkvs))) \<and>
   (map_of mkvs ''content'' = None \<longrightarrow>
      convert_message py_str (JObj mkvs) =
      convert_message py_str (JObj ((''content'', JStr []) # mkvs))) \<and>
   (map_of mkvs ''role'' = None \<and> map_of mkvs ''content'' = None \<longrightarrow>
      convert_message py_str (JObj mkvs) =
      Inr (JObj [(''role'', JStr ''user''), (''content'', JStr [])]))"
proof (intro conjI impI)
  assume "map_of kvs ''model'' = None"
  then have "build_payload (builtin_str ext) (JObj kvs) =
      build_payload (builtin_str ext) (JObj ((''model'', JStr ''claude-haiku-4-5'') # kvs))"
    by (simp add: build_payload_def)
  then show "handle_messages ext (Inr (JObj kvs)) =
      handle_messages ext (Inr (JObj ((''model'', JStr ''claude-haiku-4-5'') # kvs)))"
    by (simp add: handle_messages_def)
next
  assume "map_of mkvs ''role'' = None"
  then show "convert_message py_str (JObj mkvs) =
      convert_message py_str (JObj ((''role'', JStr ''user'') # mkvs))"
    by (simp add: convert_message_def)
next
  assume "map_of mkvs ''content'' = None"
  then show "convert_message py_str (JObj mkvs) =
      convert_message py_str (JObj ((''content'', JStr []) # mkvs))"
    by (simp add: convert_message_def)
next
  assume "map_of mkvs ''role'' = None \<and> map_of mkvs ''content'' = None"
  then show "convert_message py_str (JObj mkvs) =
      Inr (JObj [(''role'', JStr ''user''), (''content'', JStr [])])"
    by (simp add: convert_message_def)
qed

theorem absent_fields_default_witness:
  "map_of [(''messages'', JArr [JObj []])] ''model'' = None \<and>
   map_of ([] :: (string \<times> json) list) ''role'' = None \<and>
   map_of ([] :: (string \<times> json) list) ''content'' = None \<and>
   handle_messages
     \<lparr>builtin_str = (\<lambda>v. []), backend_post = (\<lambda>p. Json (JObj [])), uuid4_hex = ''00000000000000000000000000000000''\<rparr>
     (Inr (JObj [(''messages'', JArr [JObj []])])) =
     ([JObj [(''model'', JStr ''claude-haiku-4-5:latest''),
             (''messages'', JArr [JObj [(''role'', JStr ''user''), (''content'', JStr [])]]),
             (''max_tokens'', JInt 4096),
             (''temperature'', JFloat 7 (- 1)),
             (''stream'', JBool False)]],
      Inr (Body (JObj [(''id'', JStr ''msg_000000000000000000000000''),
                       (''type'', JStr ''message''),
                       (''role'', JStr ''assistant''),
                       (''model'', JStr ''claude-haiku-4-5''),
                       (''content'', JArr [JObj [(''type'', JStr ''text''), (''text'', JStr [])]]),
                       (''stop_reason'', JStr ''end_turn''),
                       (''stop_sequence'', JNull),
                       (''usage'', JObj [(''input_tokens'', JInt 0), (''output_tokens'', JInt 0)])]))) \<and>
   convert_message (\<lambda>v. []) (JObj []) =
     Inr (JObj [(''role'', JStr ''user''), (''content'', JStr [])])"
  using absent_fields_default [of "[(''messages'', JArr [JObj []])]"
     "\<lparr>builtin_str = (\<lambda>v. []), backend_post = (\<lambda>p. Json (JObj [])), uuid4_hex = ''00000000000000000000000000000000''\<rparr>"
     "[]" "\<lambda>v. []"]
  by (simp add: handle_messages_def build_payload_def anthropic_messages_to_openai_def
        convert_message_def translate_response_def DEFAULT_MODEL_MAP_def)

text \<open>
  Claim C1, on the reply \<^verbatim>\<open>{"choices": []}\<close>: the default \<^verbatim>\<open>[{}]\<close> of line 158 applies only
  when the key is absent, so the subscript \<^verbatim>\<open>[0]\<close> of the empty list raises \<^verbatim>\<open>IndexError\<close>;
  the exception is raised outside the \<^verbatim>\<open>try\<close> block and leaves the handler.
\<close>

theorem empty_choices_raise:
  "translate_response hex model (JObj [(''choices'', JArr [])]) = Inl IndexError \<and>
   snd (handle_messages
          \<lparr>builtin_str = py_str,
           backend_post = (\<lambda>p. Json (JObj [(''choices'', JArr [])])),
           uuid4_hex = hex\<rparr>
          (Inr (JObj []))) = Inl IndexError"
  by (simp add: translate_response_def handle_messages_def build_payload_def
        anthropic_messages_to_openai_def)

text \<open>
  What line 158 does cover: a reply without the key \<^verbatim>\<open>choices\<close>, or whose first choice
  has no \<^verbatim>\<open>message\<close>, or whose message has no \<^verbatim>\<open>content\<close>, and without \<^verbatim>\<open>usage\<close> or
  without the two token counts in it, gives the response with empty text and both token
  counts 0.
\<close>

lemma translate_response_absent_path:
  assumes "map_of kvs ''choices'' = None \<or>
           (\<exists>ckvs cs. map_of kvs ''choices'' = Some (JArr (JObj ckvs # cs)) \<and>
              (map_of ckvs ''message'' = None \<or>
               (\<exists>mkvs. map_of ckvs ''message'' = Some (JObj mkvs) \<and>
                  map_of mkvs ''content'' = None)))"
    and "map_of kvs ''usage'' = None \<or>
         (\<exists>ukvs. map_of kvs ''usage'' = Some (JObj ukvs) \<and>
            map_of ukvs ''prompt_tokens'' = None \<and> map_of ukvs ''completion_tokens'' = None)"
  shows "translate_response hex model (JObj kvs) =
           Inr (JObj [(''id'', JStr (''msg_'' @ take 24 hex)),
                      (''type'', JStr ''message''),
                      (''role'', JStr ''assistant''),
                      (''model'', model),
                      (''content'', JArr [JObj [(''type'', JStr ''text''), (''text'', JStr [])]]),
                      (''stop_reason'', JStr ''end_turn''),
                      (''stop_sequence'', JNull),
                      (''usage'', JObj [(''input_tokens'', JInt 0),
                                        (''output_tokens'', JInt 0)])])"
  using assms by (auto simp: translate_response_def)

text \<open>
  Claim C2, on a body that is not JSON: the handler returns the pair of a dict and the
  integer 400, and the dict has the key \<^verbatim>\<open>error\<close> alone: the key \<^verbatim>\<open>type\<close> with value
  \<^verbatim>\<open>error\<close>, which the envelopes of lines 147--155 carry, is missing.
\<close>

theorem invalid_json_reply:
  "handle_messages ext (Inl e) =
     ([], Inr (Tuple (JObj [(''error'',
                 JObj [(''type'', JStr ''invalid_request_error''),
                       (''message'', JStr (''Invalid JSON: '' @ e))])]) 400)) \<and>
   field (JObj [(''error'',
            JObj [(''type'', JStr ''invalid_request_error''),
                  (''message'', JStr (''Invalid JSON: '' @ e))])]) ''type'' = None"
  by (simp add: handle_messages_def)

end
